theory Spec2Isabelle
  imports Complex_Main "HOL-Library.Word"
begin

section \<open>The macroeconomic dashboard (dashboard.py)\<close>

text \<open>
  The program is one Dash callback, \<^verbatim>\<open>update_graph\<close>, over three formula functions
  written with numpy. The embedding keeps the values the Python code handles:

  \<^item> a callback argument is what a \<^verbatim>\<open>dcc.Input(type='number')\<close> delivers: the JSON
    \<^verbatim>\<open>null\<close> of an empty field (\<open>PyNone\<close>), a JSON integer (a Python \<^verbatim>\<open>int\<close>,
    as the default \<^verbatim>\<open>'A': 10\<close>) or a JSON number with a fraction (a Python
    \<^verbatim>\<open>float\<close>, as the default \<^verbatim>\<open>'g': 0.03\<close>);
  \<^item> a numpy array has a dtype: \<^verbatim>\<open>np.arange(0, 11)\<close> is an int64 array (numpy's default
    integer on Linux and macOS, and on every platform from NumPy 2), and arithmetic of a
    Python \<^verbatim>\<open>int\<close> with an int64 array stays in int64 and wraps around, while a Python
    \<^verbatim>\<open>float\<close> operand makes the result a float64 array;
  \<^item> a float64 is a finite value, an infinity or \<^verbatim>\<open>nan\<close>. A finite result is kept as
    the real number it stands for (rounding within the range is not modelled); a result
    beyond the range overflows to an infinity, as numpy's does (with a warning, never an
    exception);
  \<^item> an exception is a value \<open>Inl e\<close> of the result type.
\<close>

datatype f64 = Finite real | PosInf | NegInf | NaN

datatype pyval = PyNone | PyInt int | PyFloat64 f64

text \<open>A Python \<^verbatim>\<open>float\<close> of a finite value.\<close>

abbreviation PyFloat :: "real \<Rightarrow> pyval" where
  "PyFloat v \<equiv> PyFloat64 (Finite v)"

datatype ndarray = Int64 "64 word list" | Float64 "f64 list"

datatype error = TypeError | OverflowError

subsection \<open>float64 arithmetic\<close>

text \<open>
  The largest float64 is \<open>2 ^ 1024 - 2 ^ 971\<close>. Rounding to nearest, a result overflows
  when its magnitude reaches \<open>2 ^ 1024 - 2 ^ 970\<close>, half a step beyond.
\<close>

definition float64_bound :: real where
  "float64_bound = 2 ^ 1024 - 2 ^ 970"

definition round_f64 :: "real \<Rightarrow> f64" where
  "round_f64 v =
     (if float64_bound \<le> v then PosInf
      else if v \<le> - float64_bound then NegInf
      else Finite v)"

fun f64_add :: "f64 \<Rightarrow> f64 \<Rightarrow> f64" where
  "f64_add (Finite a) (Finite b) = round_f64 (a + b)"
| "f64_add NaN y = NaN"
| "f64_add x NaN = NaN"
| "f64_add PosInf NegInf = NaN"
| "f64_add NegInf PosInf = NaN"
| "f64_add PosInf y = PosInf"
| "f64_add x PosInf = PosInf"
| "f64_add NegInf y = NegInf"
| "f64_add x NegInf = NegInf"

fun f64_mul :: "f64 \<Rightarrow> f64 \<Rightarrow> f64" where
  "f64_mul (Finite a) (Finite b) = round_f64 (a * b)"
| "f64_mul NaN y = NaN"
| "f64_mul x NaN = NaN"
| "f64_mul (Finite a) PosInf = (if a = 0 then NaN else if 0 < a then PosInf else NegInf)"
| "f64_mul (Finite a) NegInf = (if a = 0 then NaN else if 0 < a then NegInf else PosInf)"
| "f64_mul PosInf (Finite b) = (if b = 0 then NaN else if 0 < b then PosInf else NegInf)"
| "f64_mul NegInf (Finite b) = (if b = 0 then NaN else if 0 < b then NegInf else PosInf)"
| "f64_mul PosInf PosInf = PosInf"
| "f64_mul PosInf NegInf = NegInf"
| "f64_mul NegInf PosInf = NegInf"
| "f64_mul NegInf NegInf = PosInf"

text \<open>
  \<^verbatim>\<open>pow(x, t)\<close> for an exponent that is a natural number (an entry of the int64 array
  of years, converted to float64): any base to the power 0 is 1.
\<close>

fun f64_pow :: "f64 \<Rightarrow> nat \<Rightarrow> f64" where
  "f64_pow (Finite a) t = round_f64 (a ^ t)"
| "f64_pow PosInf t = (if t = 0 then Finite 1 else PosInf)"
| "f64_pow NegInf t = (if t = 0 then Finite 1 else if even t then PosInf else NegInf)"
| "f64_pow NaN t = (if t = 0 then Finite 1 else NaN)"

fun f64_sin :: "f64 \<Rightarrow> f64" where
  "f64_sin (Finite a) = Finite (sin a)"
| "f64_sin x = NaN"

fun f64_cos :: "f64 \<Rightarrow> f64" where
  "f64_cos (Finite a) = Finite (cos a)"
| "f64_cos x = NaN"

text \<open>An int64 as a float64: always in the range.\<close>

definition f64_of_int64 :: "64 word \<Rightarrow> f64" where
  "f64_of_int64 w = Finite (real_of_int (sint w))"

text \<open>
  A Python \<^verbatim>\<open>int\<close> as a float64: one that rounds beyond the range raises
  \<^verbatim>\<open>OverflowError\<close> ("int too large to convert to float").
\<close>

definition f64_of_int :: "int \<Rightarrow> error + f64" where
  "f64_of_int n =
     (if \<bar>real_of_int n\<bar> < float64_bound then Inr (Finite (real_of_int n))
      else Inl OverflowError)"

subsection \<open>Reading values\<close>

text \<open>The real value of a number (0 where there is none).\<close>

fun num :: "pyval \<Rightarrow> real" where
  "num (PyInt n) = real_of_int n"
| "num (PyFloat64 (Finite v)) = v"
| "num x = 0"

text \<open>A finite number that float64 holds: what a number input can deliver.\<close>

fun finite_number :: "pyval \<Rightarrow> bool" where
  "finite_number (PyInt n) = (\<bar>real_of_int n\<bar> < float64_bound)"
| "finite_number (PyFloat64 (Finite v)) = (\<bar>v\<bar> < float64_bound)"
| "finite_number x = False"

text \<open>
  A finite number whose integers stay in int64 when 1 is added, as \<^verbatim>\<open>1 + g\<close> does.
\<close>

fun int64_number :: "pyval \<Rightarrow> bool" where
  "int64_number (PyInt n) = (- (2 ^ 63) \<le> n \<and> n + 1 < 2 ^ 63)"
| "int64_number (PyFloat64 (Finite v)) = (\<bar>v\<bar> < float64_bound)"
| "int64_number x = False"

fun size_of :: "ndarray \<Rightarrow> nat" where
  "size_of (Int64 ws) = length ws"
| "size_of (Float64 vs) = length vs"

text \<open>The entry of an array at an index, as a float64; an int64 entry is signed.\<close>

fun item :: "ndarray \<Rightarrow> nat \<Rightarrow> f64" where
  "item (Int64 ws) i = f64_of_int64 (ws ! i)"
| "item (Float64 vs) i = vs ! i"

subsection \<open>Python and numpy arithmetic\<close>

text \<open>
  A Python \<^verbatim>\<open>int\<close> that meets an int64 array is converted to int64; one that does
  not fit raises \<^verbatim>\<open>OverflowError\<close> (NumPy 2: "Python integer out of bounds for int64").
\<close>

definition to_int64 :: "int \<Rightarrow> error + 64 word" where
  "to_int64 n =
     (if - (2 ^ 63) \<le> n \<and> n < 2 ^ 63 then Inr (word_of_int n) else Inl OverflowError)"

text \<open>
  \<^verbatim>\<open>a + b\<close> on two Python scalars: \<^verbatim>\<open>int\<close> is unbounded, an \<^verbatim>\<open>int\<close> that meets a
  \<^verbatim>\<open>float\<close> is converted to float64, \<^verbatim>\<open>None\<close> raises.
\<close>

fun py_add :: "pyval \<Rightarrow> pyval \<Rightarrow> error + pyval" where
  "py_add (PyInt a) (PyInt b) = Inr (PyInt (a + b))"
| "py_add (PyInt a) (PyFloat64 b) =
     (case f64_of_int a of
        Inl e \<Rightarrow> Inl e
      | Inr x \<Rightarrow> Inr (PyFloat64 (f64_add x b)))"
| "py_add (PyFloat64 a) (PyInt b) =
     (case f64_of_int b of
        Inl e \<Rightarrow> Inl e
      | Inr y \<Rightarrow> Inr (PyFloat64 (f64_add a y)))"
| "py_add (PyFloat64 a) (PyFloat64 b) = Inr (PyFloat64 (f64_add a b))"
| "py_add _ _ = Inl TypeError"

text \<open>
  \<^verbatim>\<open>np.arange(start, stop)\<close> for \<open>0 \<le> start\<close>: the int64 array of the integers from
  \<open>start\<close> up to \<open>stop - 1\<close>. A time domain is kept as the list of its entries, which
  are never negative; that it is an int64 array is what \<open>np_power\<close>, \<open>np_divide\<close> and
  \<open>np_add_int\<close> below build on.
\<close>

definition np_arange :: "nat \<Rightarrow> nat \<Rightarrow> nat list" where
  "np_arange start stop = [start..<stop]"

text \<open>
  \<^verbatim>\<open>b ** years\<close>, a Python scalar to the power of an int64 array: an \<^verbatim>\<open>int\<close> base
  gives an int64 array (the power is taken modulo \<open>2 ^ 64\<close>), a \<^verbatim>\<open>float\<close> base a
  float64 array.
\<close>

fun np_power :: "pyval \<Rightarrow> nat list \<Rightarrow> error + ndarray" where
  "np_power PyNone years = Inl TypeError"
| "np_power (PyInt b) years =
     (case to_int64 b of
        Inl e \<Rightarrow> Inl e
      | Inr w \<Rightarrow> Inr (Int64 (map (\<lambda>t. w ^ t) years)))"
| "np_power (PyFloat64 b) years = Inr (Float64 (map (\<lambda>t. f64_pow b t) years))"

text \<open>
  \<^verbatim>\<open>a * arr\<close>, a Python scalar times an array: an \<^verbatim>\<open>int\<close> is converted to the
  array's dtype, an int64 array that meets a \<^verbatim>\<open>float\<close> to float64.
\<close>

fun np_multiply :: "pyval \<Rightarrow> ndarray \<Rightarrow> error + ndarray" where
  "np_multiply PyNone arr = Inl TypeError"
| "np_multiply (PyInt a) (Int64 ws) =
     (case to_int64 a of
        Inl e \<Rightarrow> Inl e
      | Inr w \<Rightarrow> Inr (Int64 (map (\<lambda>v. w * v) ws)))"
| "np_multiply (PyInt a) (Float64 vs) =
     (case f64_of_int a of
        Inl e \<Rightarrow> Inl e
      | Inr x \<Rightarrow> Inr (Float64 (map (\<lambda>v. f64_mul x v) vs)))"
| "np_multiply (PyFloat64 a) (Int64 ws) =
     Inr (Float64 (map (\<lambda>v. f64_mul a (f64_of_int64 v)) ws))"
| "np_multiply (PyFloat64 a) (Float64 vs) = Inr (Float64 (map (\<lambda>v. f64_mul a v) vs))"

text \<open>\<^verbatim>\<open>a + arr\<close>, a Python scalar plus an array, with the same conversions.\<close>

fun np_add :: "pyval \<Rightarrow> ndarray \<Rightarrow> error + ndarray" where
  "np_add PyNone arr = Inl TypeError"
| "np_add (PyInt a) (Int64 ws) =
     (case to_int64 a of
        Inl e \<Rightarrow> Inl e
      | Inr w \<Rightarrow> Inr (Int64 (map (\<lambda>v. w + v) ws)))"
| "np_add (PyInt a) (Float64 vs) =
     (case f64_of_int a of
        Inl e \<Rightarrow> Inl e
      | Inr x \<Rightarrow> Inr (Float64 (map (\<lambda>v. f64_add x v) vs)))"
| "np_add (PyFloat64 a) (Int64 ws) =
     Inr (Float64 (map (\<lambda>v. f64_add a (f64_of_int64 v)) ws))"
| "np_add (PyFloat64 a) (Float64 vs) = Inr (Float64 (map (\<lambda>v. f64_add a v) vs))"

text \<open>\<^verbatim>\<open>years / d\<close>: true division of an int64 array by an integer literal, float64.\<close>

definition np_divide :: "nat list \<Rightarrow> nat \<Rightarrow> ndarray" where
  "np_divide years d = Float64 (map (\<lambda>t. Finite (real t / real d)) years)"

text \<open>\<^verbatim>\<open>years + k\<close>: an int64 array plus an integer literal, int64.\<close>

definition np_add_int :: "nat list \<Rightarrow> nat \<Rightarrow> ndarray" where
  "np_add_int years k = Int64 (map (\<lambda>t. word_of_nat t + word_of_nat k) years)"

fun np_sin :: "ndarray \<Rightarrow> ndarray" where
  "np_sin (Int64 ws) = Float64 (map (\<lambda>v. f64_sin (f64_of_int64 v)) ws)"
| "np_sin (Float64 vs) = Float64 (map f64_sin vs)"

fun np_cos :: "ndarray \<Rightarrow> ndarray" where
  "np_cos (Int64 ws) = Float64 (map (\<lambda>v. f64_cos (f64_of_int64 v)) ws)"
| "np_cos (Float64 vs) = Float64 (map f64_cos vs)"

subsection \<open>The three formulas\<close>

text \<open>\<^verbatim>\<open>return A * (1 + g) ** years\<close>\<close>

definition calculate_gdp :: "nat list \<Rightarrow> pyval \<Rightarrow> pyval \<Rightarrow> error + ndarray" where
  "calculate_gdp years A g =
     (case py_add (PyInt 1) g of
        Inl e \<Rightarrow> Inl e
      | Inr b \<Rightarrow>
          (case np_power b years of
             Inl e \<Rightarrow> Inl e
           | Inr p \<Rightarrow> np_multiply A p))"

text \<open>\<^verbatim>\<open>return \<pi>_target + \<alpha> * np.sin(years / 2)\<close>\<close>

definition calculate_inflation :: "nat list \<Rightarrow> pyval \<Rightarrow> pyval \<Rightarrow> error + ndarray" where
  "calculate_inflation years \<pi>_target \<alpha> =
     (case np_multiply \<alpha> (np_sin (np_divide years 2)) of
        Inl e \<Rightarrow> Inl e
      | Inr d \<Rightarrow> np_add \<pi>_target d)"

text \<open>\<^verbatim>\<open>return u_natural + \<beta> * np.cos(years / 3)\<close>\<close>

definition calculate_unemployment :: "nat list \<Rightarrow> pyval \<Rightarrow> pyval \<Rightarrow> error + ndarray" where
  "calculate_unemployment years u_natural \<beta> =
     (case np_multiply \<beta> (np_cos (np_divide years 3)) of
        Inl e \<Rightarrow> Inl e
      | Inr d \<Rightarrow> np_add u_natural d)"

subsection \<open>The figure\<close>

text \<open>
  A \<^verbatim>\<open>go.Scatter\<close> trace with the keyword arguments the callback passes, and the
  figure that \<^verbatim>\<open>make_subplots\<close> creates and the callback fills in: each trace is
  kept with the \<^verbatim>\<open>row\<close> and \<^verbatim>\<open>col\<close> it was added at.
\<close>

record scatter =
  scatter_x :: ndarray
  scatter_y :: ndarray
  scatter_mode :: string
  scatter_name :: string
  scatter_line_color :: string

record figure =
  fig_rows :: nat
  fig_cols :: nat
  fig_shared_yaxes :: bool
  fig_horizontal_spacing :: real
  fig_subplot_titles :: "string list"
  fig_data :: "(scatter \<times> nat \<times> nat) list"
  layout_height :: "nat option"
  layout_title_text :: "string option"
  layout_paper_bgcolor :: "string option"
  layout_plot_bgcolor :: "string option"
  layout_font_color :: "string option"
  layout_showlegend :: "bool option"
  xaxes_title_text :: "string option"
  xaxes_gridcolor :: "string option"
  xaxes_zerolinecolor :: "string option"
  yaxes_gridcolor :: "string option"
  yaxes_zerolinecolor :: "string option"

definition make_subplots :: "nat \<Rightarrow> nat \<Rightarrow> bool \<Rightarrow> real \<Rightarrow> string list \<Rightarrow> figure" where
  "make_subplots rows cols shared_yaxes horizontal_spacing subplot_titles =
     \<lparr>fig_rows = rows, fig_cols = cols, fig_shared_yaxes = shared_yaxes,
      fig_horizontal_spacing = horizontal_spacing, fig_subplot_titles = subplot_titles,
      fig_data = [],
      layout_height = None, layout_title_text = None, layout_paper_bgcolor = None,
      layout_plot_bgcolor = None, layout_font_color = None, layout_showlegend = None,
      xaxes_title_text = None, xaxes_gridcolor = None, xaxes_zerolinecolor = None,
      yaxes_gridcolor = None, yaxes_zerolinecolor = None\<rparr>"

definition add_trace :: "figure \<Rightarrow> scatter \<Rightarrow> nat \<Rightarrow> nat \<Rightarrow> figure" where
  "add_trace fig tr row col = fig\<lparr>fig_data := fig_data fig @ [(tr, row, col)]\<rparr>"

definition update_layout ::
  "figure \<Rightarrow> nat \<Rightarrow> string \<Rightarrow> string \<Rightarrow> string \<Rightarrow> string \<Rightarrow> bool \<Rightarrow> figure" where
  "update_layout fig height title_text paper_bgcolor plot_bgcolor font_color showlegend =
     fig\<lparr>layout_height := Some height, layout_title_text := Some title_text,
         layout_paper_bgcolor := Some paper_bgcolor, layout_plot_bgcolor := Some plot_bgcolor,
         layout_font_color := Some font_color, layout_showlegend := Some showlegend\<rparr>"

definition update_xaxes :: "figure \<Rightarrow> string \<Rightarrow> string \<Rightarrow> string \<Rightarrow> figure" where
  "update_xaxes fig title_text gridcolor zerolinecolor =
     fig\<lparr>xaxes_title_text := Some title_text, xaxes_gridcolor := Some gridcolor,
         xaxes_zerolinecolor := Some zerolinecolor\<rparr>"

definition update_yaxes :: "figure \<Rightarrow> string \<Rightarrow> string \<Rightarrow> figure" where
  "update_yaxes fig gridcolor zerolinecolor =
     fig\<lparr>yaxes_gridcolor := Some gridcolor, yaxes_zerolinecolor := Some zerolinecolor\<rparr>"

text \<open>The series the traces of a figure plot, and their x values, in the order added.\<close>

definition series :: "figure \<Rightarrow> ndarray list" where
  "series fig = map (\<lambda>(tr, row, col). scatter_y tr) (fig_data fig)"

definition domains :: "figure \<Rightarrow> ndarray list" where
  "domains fig = map (\<lambda>(tr, row, col). scatter_x tr) (fig_data fig)"

subsection \<open>The callback\<close>

text \<open>
  \<^verbatim>\<open>update_graph\<close>: the three formulas are evaluated in turn on
  \<^verbatim>\<open>years = np.arange(0, 11)\<close>; an exception in one of them leaves the function at
  once. Only then is the figure built, trace by trace, and returned.
\<close>

definition update_graph ::
  "pyval \<Rightarrow> pyval \<Rightarrow> pyval \<Rightarrow> pyval \<Rightarrow> pyval \<Rightarrow> pyval \<Rightarrow> error + figure" where
  "update_graph gdp_A gdp_g inf_target inf_alpha unemp_natural unemp_beta =
     (let years = np_arange 0 11 in
      case calculate_gdp years gdp_A gdp_g of
        Inl e \<Rightarrow> Inl e
      | Inr gdp \<Rightarrow>
     (case calculate_inflation years inf_target inf_alpha of
        Inl e \<Rightarrow> Inl e
      | Inr inflation \<Rightarrow>
     (case calculate_unemployment years unemp_natural unemp_beta of
        Inl e \<Rightarrow> Inl e
      | Inr unemployment \<Rightarrow>
     (let fig = make_subplots 1 3 False (5 / 100) [''GDP'', ''Inflation'', ''Unemployment''];
          fig = add_trace fig
            \<lparr>scatter_x = np_add_int years 2010, scatter_y = gdp,
             scatter_mode = ''lines+markers'', scatter_name = ''GDP'',
             scatter_line_color = ''#bb86fc''\<rparr> 1 1;
          fig = add_trace fig
            \<lparr>scatter_x = np_add_int years 2010, scatter_y = inflation,
             scatter_mode = ''lines+markers'', scatter_name = ''Inflation'',
             scatter_line_color = ''#03dac6''\<rparr> 1 2;
          fig = add_trace fig
            \<lparr>scatter_x = np_add_int years 2010, scatter_y = unemployment,
             scatter_mode = ''lines+markers'', scatter_name = ''Unemployment'',
             scatter_line_color = ''#cf6679''\<rparr> 1 3;
          fig = update_layout fig 500 ''Macroeconomic Trends'' ''#1e1e1e'' ''#1e1e1e''
                  ''#e0e0e0'' False;
          fig = update_xaxes fig ''Year'' ''#5e5e5e'' ''#5e5e5e'';
          fig = update_yaxes fig ''#5e5e5e'' ''#5e5e5e''
      in Inr fig))))"

text \<open>
  The decorator \<^verbatim>\<open>@app.callback(Output('macro-trends-graph', 'figure'), [Input ...])\<close>:
  a request carries the \<^verbatim>\<open>value\<close> of the six inputs, in the order of the list, and
  they become the six arguments. The value returned becomes the \<^verbatim>\<open>figure\<close> property
  of the graph; a callback that raises returns nothing, and the property keeps the value
  it had (\<open>None\<close> before the first figure: the layout's \<^verbatim>\<open>dcc.Graph\<close> has none).
\<close>

record inputs =
  gdp_A_value :: pyval
  gdp_g_value :: pyval
  inf_target_value :: pyval
  inf_alpha_value :: pyval
  unemp_natural_value :: pyval
  unemp_beta_value :: pyval

definition callback :: "inputs \<Rightarrow> error + figure" where
  "callback req =
     update_graph (gdp_A_value req) (gdp_g_value req) (inf_target_value req)
       (inf_alpha_value req) (unemp_natural_value req) (unemp_beta_value req)"

definition publish :: "figure option \<Rightarrow> inputs \<Rightarrow> figure option" where
  "publish shown req = (case callback req of Inl e \<Rightarrow> shown | Inr fig \<Rightarrow> Some fig)"

text \<open>
  \<^verbatim>\<open>initial_params\<close>: the values the six inputs of the layout start with, and so the
  arguments of the first call.
\<close>

definition initial_params :: inputs where
  "initial_params =
     \<lparr>gdp_A_value = PyInt 10, gdp_g_value = PyFloat (3 / 100),
      inf_target_value = PyInt 2, inf_alpha_value = PyFloat (1 / 2),
      unemp_natural_value = PyInt 4, unemp_beta_value = PyFloat (- 1 / 2)\<rparr>"

section \<open>Properties of the arithmetic\<close>

lemma float64_bound_large: "2 ^ 64 < float64_bound"
  by (simp add: float64_bound_def)

lemma round_f64_Finite: "\<bar>v\<bar> < float64_bound \<Longrightarrow> round_f64 v = Finite v"
  by (auto simp: round_f64_def)

lemma round_f64_small: "\<bar>v\<bar> \<le> 2 ^ 64 \<Longrightarrow> round_f64 v = Finite v"
  using float64_bound_large by (intro round_f64_Finite) linarith

lemma f64_of_int_finite:
  "finite_number (PyInt n) \<Longrightarrow> f64_of_int n = Inr (Finite (real_of_int n))"
  by (simp add: f64_of_int_def)

lemma finite_number_cases:
  assumes "finite_number a"
  obtains n where "a = PyInt n" and "\<bar>real_of_int n\<bar> < float64_bound"
        | v where "a = PyFloat v" and "\<bar>v\<bar> < float64_bound"
  using assms by (cases a rule: finite_number.cases) auto

lemma int64_number_finite:
  assumes "int64_number a"
  shows "finite_number a"
proof (cases a rule: int64_number.cases)
  case (1 n)
  with assms have "- (2 ^ 63) \<le> n" and "n + 1 < 2 ^ 63"
    by simp_all
  then have "\<bar>n\<bar> \<le> 2 ^ 64"
    by simp
  then have "real_of_int \<bar>n\<bar> \<le> real_of_int (2 ^ 64)"
    by (simp only: of_int_le_iff)
  then have "\<bar>real_of_int n\<bar> \<le> 2 ^ 64"
    by simp
  then have "\<bar>real_of_int n\<bar> < float64_bound"
    using float64_bound_large by linarith
  with 1 show ?thesis by simp
qed (use assms in simp_all)

lemma np_multiply_finite:
  assumes "finite_number a"
  shows "np_multiply a (Float64 vs) = Inr (Float64 (map (\<lambda>v. f64_mul (Finite (num a)) v) vs))"
  using assms by (cases a rule: finite_number_cases) (simp_all add: f64_of_int_def)

lemma np_add_finite:
  assumes "finite_number a"
  shows "np_add a (Float64 vs) = Inr (Float64 (map (\<lambda>v. f64_add (Finite (num a)) v) vs))"
  using assms by (cases a rule: finite_number_cases) (simp_all add: f64_of_int_def)

lemma np_multiply_size: "np_multiply a arr = Inr out \<Longrightarrow> size_of out = size_of arr"
  by (cases a; cases arr) (auto simp: to_int64_def f64_of_int_def split: if_splits)

lemma np_add_size: "np_add a arr = Inr out \<Longrightarrow> size_of out = size_of arr"
  by (cases a; cases arr) (auto simp: to_int64_def f64_of_int_def split: if_splits)

lemma np_power_size: "np_power b years = Inr out \<Longrightarrow> size_of out = length years"
  by (cases b) (auto simp: to_int64_def split: if_splits)

lemma np_add_int_size: "size_of (np_add_int years k) = length years"
  by (simp add: np_add_int_def)

lemma sint_int64:
  fixes n :: int
  assumes "- (2 ^ 63) \<le> n" and "n < 2 ^ 63"
  shows "sint (word_of_int n :: 64 word) = n"
  using assms by (simp add: sint_sbintrunc' signed_take_bit_int_eq_self)

text \<open>
  A product with a sine or a cosine stays in the range, so the cyclical term never
  overflows; only the sum with the target can.
\<close>

lemma round_f64_sin:
  assumes "\<bar>a\<bar> < float64_bound"
  shows "round_f64 (a * sin x) = Finite (a * sin x)"
proof -
  have "\<bar>a * sin x\<bar> \<le> \<bar>a\<bar>"
    by (simp add: abs_mult mult_left_le)
  with assms show ?thesis
    by (intro round_f64_Finite) linarith
qed

lemma round_f64_cos:
  assumes "\<bar>a\<bar> < float64_bound"
  shows "round_f64 (a * cos x) = Finite (a * cos x)"
proof -
  have "\<bar>a * cos x\<bar> \<le> \<bar>a\<bar>"
    by (simp add: abs_mult mult_left_le)
  with assms show ?thesis
    by (intro round_f64_Finite) linarith
qed

lemma cyclical_in_range:
  fixes p a c :: real
  assumes "\<bar>c\<bar> \<le> 1" and "\<bar>p\<bar> + \<bar>a\<bar> < float64_bound"
  shows "\<bar>p + a * c\<bar> < float64_bound"
proof -
  have "\<bar>a * c\<bar> \<le> \<bar>a\<bar>"
    using assms(1) by (simp add: abs_mult mult_left_le)
  moreover have "\<bar>p + a * c\<bar> \<le> \<bar>p\<bar> + \<bar>a * c\<bar>"
    by (rule abs_triangle_ineq)
  ultimately show ?thesis
    using assms(2) by linarith
qed

lemma finite_number_bound: "finite_number a \<Longrightarrow> \<bar>num a\<bar> < float64_bound"
  by (cases a rule: finite_number_cases) simp_all

text \<open>
  A bound for \<open>sin 1\<close> from the Maclaurin series of the sine up to the fifth power; the
  remainder is at most \<open>1 / 5040\<close>.
\<close>

lemma sin_1_bounds: "8414 / 10000 < sin (1::real) \<and> sin (1::real) < 8419 / 10000"
proof -
  obtain t where t: "sin (1::real) =
      (\<Sum>m<7. sin_coeff m * 1 ^ m) + (sin (t + 1 / 2 * real 7 * pi) / fact 7) * 1 ^ 7"
    using Maclaurin_sin_expansion3 [of 7 1] by auto
  define r where "r = sin (t + 1 / 2 * real 7 * pi)"
  have s: "(\<Sum>m<7. sin_coeff m * (1::real) ^ m) = 1 - 1 / 6 + 1 / 120"
    by (simp add: sin_coeff_def lessThan_nat_numeral lessThan_Suc fact_numeral)
  have b: "- 1 \<le> r" "r \<le> 1"
    by (simp_all add: r_def)
  have f: "(fact 7 :: real) = 5040"
    by (simp add: fact_numeral)
  have "sin (1::real) = 1 - 1 / 6 + 1 / 120 + r / 5040"
    unfolding r_def using t s f by simp
  with b show ?thesis by simp
qed

section \<open>Properties of the three formulas\<close>

text \<open>The length of a series is the length of the time domain.\<close>

lemma calculate_gdp_size:
  "calculate_gdp years A g = Inr out \<Longrightarrow> size_of out = length years"
  by (auto simp: calculate_gdp_def np_multiply_size np_power_size split: sum.splits)

lemma calculate_inflation_size:
  "calculate_inflation years \<pi>_target \<alpha> = Inr out \<Longrightarrow> size_of out = length years"
  by (auto simp: calculate_inflation_def np_divide_def
      dest!: np_multiply_size np_add_size split: sum.splits)

lemma calculate_unemployment_size:
  "calculate_unemployment years u_natural \<beta> = Inr out \<Longrightarrow> size_of out = length years"
  by (auto simp: calculate_unemployment_def np_divide_def
      dest!: np_multiply_size np_add_size split: sum.splits)

text \<open>
  On finite numbers the two cyclical formulas return float64 arrays, whatever the types:
  each point is the formula's value, or an infinity where that value is beyond the range.
\<close>

lemma calculate_inflation_number:
  assumes "finite_number \<pi>_target" and "finite_number \<alpha>"
  shows "calculate_inflation years \<pi>_target \<alpha> =
         Inr (Float64 (map (\<lambda>t. round_f64 (num \<pi>_target + num \<alpha> * sin (real t / 2))) years))"
  using assms
  by (simp add: calculate_inflation_def np_divide_def np_multiply_finite np_add_finite comp_def
      round_f64_sin finite_number_bound)

lemma calculate_unemployment_number:
  assumes "finite_number u_natural" and "finite_number \<beta>"
  shows "calculate_unemployment years u_natural \<beta> =
         Inr (Float64 (map (\<lambda>t. round_f64 (num u_natural + num \<beta> * cos (real t / 3))) years))"
  using assms
  by (simp add: calculate_unemployment_def np_divide_def np_multiply_finite np_add_finite
      comp_def round_f64_cos finite_number_bound)

text \<open>
  The growth formula with a \<^verbatim>\<open>float\<close> rate is evaluated in float64; with an
  \<^verbatim>\<open>int\<close> rate and an \<^verbatim>\<open>int\<close> base it is evaluated in int64, that is modulo
  \<open>2 ^ 64\<close>, and is exact as long as the value fits.
\<close>

lemma calculate_gdp_float_rate:
  assumes "finite_number A"
  shows "calculate_gdp years A (PyFloat64 g) =
         Inr (Float64 (map (\<lambda>t. f64_mul (Finite (num A)) (f64_pow (f64_add (Finite 1) g) t))
           years))"
  using assms
  by (simp add: calculate_gdp_def np_multiply_finite comp_def f64_of_int_def float64_bound_def)

lemma calculate_gdp_float_exact:
  assumes "finite_number A"
      and "\<bar>1 + g\<bar> < float64_bound"
      and "i < length years"
      and "\<bar>(1 + g) ^ (years ! i)\<bar> < float64_bound"
      and "\<bar>num A * (1 + g) ^ (years ! i)\<bar> < float64_bound"
  shows "\<exists>vs. calculate_gdp years A (PyFloat g) = Inr (Float64 vs) \<and>
           vs ! i = Finite (num A * (1 + g) ^ (years ! i))"
  using assms by (simp add: calculate_gdp_float_rate round_f64_Finite)

lemma calculate_gdp_int_rate:
  assumes "calculate_gdp years (PyInt A) (PyInt g) = Inr out"
  shows "out = Int64 (map (\<lambda>t. word_of_int (A * (1 + g) ^ t)) years)"
  using assms
  by (auto simp: calculate_gdp_def to_int64_def comp_def split: sum.splits if_splits)

lemma calculate_gdp_int_exact:
  assumes "calculate_gdp years (PyInt A) (PyInt g) = Inr out"
      and "i < length years"
      and "- (2 ^ 63) \<le> A * (1 + g) ^ (years ! i)"
      and "A * (1 + g) ^ (years ! i) < 2 ^ 63"
  shows "item out i = Finite (real_of_int A * (1 + real_of_int g) ^ (years ! i))"
proof -
  have "out = Int64 (map (\<lambda>t. word_of_int (A * (1 + g) ^ t)) years)"
    using assms(1) by (rule calculate_gdp_int_rate)
  then have "item out i =
      Finite (real_of_int (sint (word_of_int (A * (1 + g) ^ (years ! i)) :: 64 word)))"
    using assms(2) by (simp add: f64_of_int64_def)
  also have "sint (word_of_int (A * (1 + g) ^ (years ! i)) :: 64 word) = A * (1 + g) ^ (years ! i)"
    using assms(3,4) by (rule sint_int64)
  finally show ?thesis by simp
qed

text \<open>
  The scenario of the defaults, base 10 and rate 0.03 on the years 0 to 10: the series
  starts at 10 and ends at \<open>10 * 1.03 ^ 10\<close>, which is about 13.439.
\<close>

lemma calculate_gdp_scenario:
  "\<exists>vs. calculate_gdp (np_arange 0 11) (PyInt 10) (PyFloat (3 / 100)) = Inr (Float64 vs) \<and>
        length vs = 11 \<and> vs ! 0 = Finite 10 \<and> vs ! 10 = Finite (10 * (103 / 100) ^ 10) \<and>
        (13439 / 1000 :: real) < 10 * (103 / 100) ^ 10 \<and>
        (10 * (103 / 100) ^ 10 :: real) < 13440 / 1000"
proof -
  have n: "finite_number (PyInt 10)"
    by (simp add: float64_bound_def)
  show ?thesis
    by (simp add: calculate_gdp_float_rate [OF n] np_arange_def power_divide round_f64_small)
qed

section \<open>Properties of the callback\<close>

text \<open>
  A call that returns a figure has evaluated all three formulas, and the figure holds
  their three series, each plotted over \<^verbatim>\<open>years + 2010\<close>.
\<close>

lemma update_graph_Inr:
  assumes "update_graph gdp_A gdp_g inf_target inf_alpha unemp_natural unemp_beta = Inr fig"
  obtains gdp inflation unemployment where
    "calculate_gdp (np_arange 0 11) gdp_A gdp_g = Inr gdp"
    "calculate_inflation (np_arange 0 11) inf_target inf_alpha = Inr inflation"
    "calculate_unemployment (np_arange 0 11) unemp_natural unemp_beta = Inr unemployment"
    "series fig = [gdp, inflation, unemployment]"
    "domains fig = replicate 3 (np_add_int (np_arange 0 11) 2010)"
    "length (fig_data fig) = 3"
  using assms
  by (auto simp: update_graph_def Let_def series_def domains_def make_subplots_def
      add_trace_def update_layout_def update_xaxes_def update_yaxes_def numeral_3_eq_3
      split: sum.splits)

text \<open>A formula that raises makes the call raise.\<close>

lemma update_graph_Inl:
  assumes "calculate_gdp (np_arange 0 11) gdp_A gdp_g = Inl e1 \<or>
           calculate_inflation (np_arange 0 11) inf_target inf_alpha = Inl e2 \<or>
           calculate_unemployment (np_arange 0 11) unemp_natural unemp_beta = Inl e3"
  shows "\<exists>e. update_graph gdp_A gdp_g inf_target inf_alpha unemp_natural unemp_beta = Inl e"
  using assms by (auto simp: update_graph_def Let_def split: sum.splits)

text \<open>
  With finite numbers for arguments and a \<^verbatim>\<open>float\<close> growth rate, the call returns a
  figure.
\<close>

lemma update_graph_numbers:
  assumes "finite_number gdp_A" and "finite_number inf_target" and "finite_number inf_alpha"
      and "finite_number unemp_natural" and "finite_number unemp_beta"
  shows "\<exists>fig. update_graph gdp_A (PyFloat64 g) inf_target inf_alpha unemp_natural unemp_beta =
           Inr fig"
  using assms
  by (simp add: update_graph_def Let_def calculate_gdp_float_rate calculate_inflation_number
      calculate_unemployment_number)

lemma callback_initial_params: "\<exists>fig. callback initial_params = Inr fig"
proof -
  have "finite_number (PyInt 10)" and "finite_number (PyInt 2)"
    and "finite_number (PyFloat (1 / 2))" and "finite_number (PyInt 4)"
    and "finite_number (PyFloat (- 1 / 2))"
    by (simp_all add: float64_bound_def)
  from update_graph_numbers [OF this, of "Finite (3 / 100)"] show ?thesis
    by (simp add: callback_def initial_params_def)
qed

section \<open>The claims\<close>

text \<open>
  C1. The exponential-growth formula satisfies \<open>values[i] = base * (1 + rate) ^ domain[i]\<close>
  for every domain point. The code departs from it when the rate arrives as an integer:
  for \<^verbatim>\<open>update_graph(10, 100, 2, 0.5, 4, -0.5)\<close> the expression
  \<^verbatim>\<open>A * (1 + g) ** years\<close> is evaluated on int64 arrays and wraps around. The GDP series
  still holds \<open>10 * 101 ^ 8\<close> at index 8, and then \<open>-7509891346865942606\<close> at index 9 and
  \<open>-2182519011368586950\<close> at index 10, where the formula gives \<open>10 * 101 ^ 9\<close> and
  \<open>10 * 101 ^ 10\<close>. (With a \<^verbatim>\<open>float\<close> rate the formula holds wherever its value is in
  the float64 range: \<open>calculate_gdp_float_exact\<close>, and \<open>calculate_gdp_scenario\<close> for base
  10 and rate 0.03.)
\<close>

theorem C1_gdp_int64_wraps:
  "\<exists>fig. update_graph (PyInt 10) (PyInt 100) (PyInt 2) (PyFloat (1 / 2)) (PyInt 4)
            (PyFloat (- 1 / 2)) = Inr fig \<and>
         item (series fig ! 0) 8 = Finite (num (PyInt 10) * (1 + num (PyInt 100)) ^ 8) \<and>
         item (series fig ! 0) 9 = Finite (- 7509891346865942606) \<and>
         item (series fig ! 0) 10 = Finite (- 2182519011368586950) \<and>
         item (series fig ! 0) 9 \<noteq> Finite (num (PyInt 10) * (1 + num (PyInt 100)) ^ 9) \<and>
         item (series fig ! 0) 10 \<noteq> Finite (num (PyInt 10) * (1 + num (PyInt 100)) ^ 10)"
proof -
  have gdp: "calculate_gdp (np_arange 0 11) (PyInt 10) (PyInt 100) =
    Inr (Int64 [10, 1010, 102010, 10303010, 1040604010, 105101005010, 10615201506010,
      1072135352107010, 108285670562808010, word_of_int (- 7509891346865942606),
      word_of_int (- 2182519011368586950)])"
    by (simp add: calculate_gdp_def np_arange_def to_int64_def upt_rec)
  have "finite_number (PyInt 2)" and "finite_number (PyFloat (1 / 2))"
    and "finite_number (PyInt 4)" and "finite_number (PyFloat (- 1 / 2))"
    by (simp_all add: float64_bound_def)
  then obtain fig where fig: "update_graph (PyInt 10) (PyInt 100) (PyInt 2) (PyFloat (1 / 2))
      (PyInt 4) (PyFloat (- 1 / 2)) = Inr fig"
    by (auto simp: update_graph_def Let_def gdp calculate_inflation_number
        calculate_unemployment_number simp del: finite_number.simps)
  from fig obtain g i u where "calculate_gdp (np_arange 0 11) (PyInt 10) (PyInt 100) = Inr g"
    and "series fig = [g, i, u]"
    by (rule update_graph_Inr)
  then have "series fig ! 0 = Int64 [10, 1010, 102010, 10303010, 1040604010, 105101005010,
      10615201506010, 1072135352107010, 108285670562808010,
      word_of_int (- 7509891346865942606), word_of_int (- 2182519011368586950)]"
    by (simp add: gdp)
  then show ?thesis using fig by (simp add: f64_of_int64_def)
qed



text \<open>
  C3. Recomputation is all-or-nothing. If one of the three formulas raises, the callback
  raises, nothing is published and the figure shown before stays. A figure that is newly
  published is the callback's result and holds the fresh series of all three formulas.
\<close>

theorem C3_all_or_nothing:
  "((calculate_gdp (np_arange 0 11) (gdp_A_value req) (gdp_g_value req) = Inl e1 \<or>
     calculate_inflation (np_arange 0 11) (inf_target_value req) (inf_alpha_value req) = Inl e2 \<or>
     calculate_unemployment (np_arange 0 11) (unemp_natural_value req) (unemp_beta_value req)
       = Inl e3) \<longrightarrow>
    (\<exists>e. callback req = Inl e) \<and> publish shown req = shown) \<and>
   (\<forall>fig. publish shown req = Some fig \<and> Some fig \<noteq> shown \<longrightarrow>
      callback req = Inr fig \<and> length (series fig) = 3 \<and>
      calculate_gdp (np_arange 0 11) (gdp_A_value req) (gdp_g_value req)
        = Inr (series fig ! 0) \<and>
      calculate_inflation (np_arange 0 11) (inf_target_value req) (inf_alpha_value req)
        = Inr (series fig ! 1) \<and>
      calculate_unemployment (np_arange 0 11) (unemp_natural_value req) (unemp_beta_value req)
        = Inr (series fig ! 2))"
proof (intro conjI impI allI)
  assume "calculate_gdp (np_arange 0 11) (gdp_A_value req) (gdp_g_value req) = Inl e1 \<or>
     calculate_inflation (np_arange 0 11) (inf_target_value req) (inf_alpha_value req) = Inl e2 \<or>
     calculate_unemployment (np_arange 0 11) (unemp_natural_value req) (unemp_beta_value req)
       = Inl e3"
  then obtain e where e: "callback req = Inl e"
    unfolding callback_def using update_graph_Inl by blast
  then show "\<exists>e. callback req = Inl e" by blast
  from e show "publish shown req = shown" by (simp add: publish_def)
next
  fix fig
  assume "publish shown req = Some fig \<and> Some fig \<noteq> shown"
  then have c: "callback req = Inr fig"
    by (auto simp: publish_def split: sum.splits)
  then have u: "update_graph (gdp_A_value req) (gdp_g_value req) (inf_target_value req)
      (inf_alpha_value req) (unemp_natural_value req) (unemp_beta_value req) = Inr fig"
    by (simp add: callback_def)
  from c show "callback req = Inr fig" .
  from u show "length (series fig) = 3"
    by (rule update_graph_Inr) simp
  from u show "calculate_gdp (np_arange 0 11) (gdp_A_value req) (gdp_g_value req)
        = Inr (series fig ! 0)"
    by (rule update_graph_Inr) simp
  from u show "calculate_inflation (np_arange 0 11) (inf_target_value req) (inf_alpha_value req)
        = Inr (series fig ! 1)"
    by (rule update_graph_Inr) simp
  from u show "calculate_unemployment (np_arange 0 11) (unemp_natural_value req)
        (unemp_beta_value req) = Inr (series fig ! 2)"
    by (rule update_graph_Inr) simp
qed

theorem C3_all_or_nothing_witness:
  "calculate_inflation (np_arange 0 11) (PyInt 2) PyNone = Inl TypeError \<and>
   (\<exists>e. callback (initial_params\<lparr>inf_alpha_value := PyNone\<rparr>) = Inl e) \<and>
   publish (publish None initial_params) (initial_params\<lparr>inf_alpha_value := PyNone\<rparr>)
     = publish None initial_params \<and>
   (\<exists>fig. publish None initial_params = Some fig \<and> length (series fig) = 3)"
proof -
  let ?req = "initial_params\<lparr>inf_alpha_value := PyNone\<rparr>"
  have raises: "calculate_inflation (np_arange 0 11) (inf_target_value ?req)
      (inf_alpha_value ?req) = Inl TypeError"
    by (simp add: initial_params_def calculate_inflation_def)
  then have "(\<exists>e. callback ?req = Inl e) \<and>
      publish (publish None initial_params) ?req = publish None initial_params"
    using C3_all_or_nothing [of ?req _ TypeError _ "publish None initial_params"] by blast
  moreover obtain fig where fig: "publish None initial_params = Some fig"
    using callback_initial_params by (auto simp: publish_def)
  then have "length (series fig) = 3"
    using C3_all_or_nothing [of initial_params _ _ _ None] by blast
  moreover have "calculate_inflation (np_arange 0 11) (PyInt 2) PyNone = Inl TypeError"
    using raises by (simp add: initial_params_def)
  ultimately show ?thesis using fig by blast
qed

text \<open>
  C4. The cyclical-deviation formula satisfies
  \<open>values[i] = target + amplitude * sin (domain[i] / 2)\<close> for every domain point, for every
  target and amplitude that are finite numbers, wherever that value lies in the float64
  range (beyond it the point is an infinity). In particular, with target 2 and amplitude
  0.5 the value at \<open>t = 0\<close> is 2 and the value at \<open>t = 2\<close> is \<open>2 + 0.5 * sin 1\<close>, which
  lies between 2.4207 and 2.421.
\<close>

theorem C4_inflation_formula:
  assumes "finite_number \<pi>_target" and "finite_number \<alpha>"
  shows "\<exists>vs. calculate_inflation years \<pi>_target \<alpha> = Inr (Float64 vs) \<and>
           length vs = length years \<and>
           (\<forall>i<length years.
              vs ! i = round_f64 (num \<pi>_target + num \<alpha> * sin (real (years ! i) / 2)) \<and>
              (\<bar>num \<pi>_target + num \<alpha> * sin (real (years ! i) / 2)\<bar> < float64_bound \<longrightarrow>
               vs ! i = Finite (num \<pi>_target + num \<alpha> * sin (real (years ! i) / 2))))"
  using assms by (simp add: calculate_inflation_number round_f64_Finite)

theorem C4_inflation_scenario:
  "\<exists>vs. calculate_inflation (np_arange 0 11) (PyInt 2) (PyFloat (1 / 2)) = Inr (Float64 vs) \<and>
        length vs = 11 \<and> vs ! 0 = Finite 2 \<and> vs ! 2 = Finite (2 + 1 / 2 * sin 1) \<and>
        24207 / 10000 < 2 + 1 / 2 * sin (1::real) \<and> 2 + 1 / 2 * sin (1::real) < 2421 / 1000"
proof -
  have "finite_number (PyInt 2)" and "finite_number (PyFloat (1 / 2))"
    by (simp_all add: float64_bound_def)
  then obtain vs where
    vs: "calculate_inflation (np_arange 0 11) (PyInt 2) (PyFloat (1 / 2)) = Inr (Float64 vs)"
      "length vs = length (np_arange 0 11)"
    and at: "\<forall>i<length (np_arange 0 11).
      (\<bar>num (PyInt 2) + num (PyFloat (1 / 2)) * sin (real (np_arange 0 11 ! i) / 2)\<bar>
         < float64_bound \<longrightarrow>
       vs ! i = Finite (num (PyInt 2) + num (PyFloat (1 / 2))
         * sin (real (np_arange 0 11 ! i) / 2)))"
    using C4_inflation_formula [of "PyInt 2" "PyFloat (1 / 2)" "np_arange 0 11"] by blast
  have range: "\<bar>2 + 1 / 2 * sin (1::real)\<bar> < float64_bound"
    by (rule cyclical_in_range) (simp_all add: float64_bound_def)
  have "vs ! 0 = Finite 2"
    using at by (simp add: np_arange_def float64_bound_def)
  moreover have "vs ! 2 = Finite (2 + 1 / 2 * sin 1)"
    using at range by (simp add: np_arange_def)
  moreover have "24207 / 10000 < 2 + 1 / 2 * sin (1::real)"
    and "2 + 1 / 2 * sin (1::real) < 2421 / 1000"
    using sin_1_bounds by simp_all
  ultimately show ?thesis
    using vs by (simp add: np_arange_def)
qed

text \<open>
  C5. The third formula has the shape of the cyclical-deviation formula, with cosine for
  sine and the period 3 for the period 2: on the same domain and the same two finite
  numbers, \<open>calculate_unemployment\<close> yields \<open>target + amplitude * cos (domain[i] / 3)\<close> at
  every point where \<open>calculate_inflation\<close> yields \<open>target + amplitude * sin (domain[i] / 2)\<close>,
  each wherever the value lies in the float64 range (beyond it the point is an infinity).
\<close>

theorem C5_unemployment_formula:
  assumes "finite_number u_natural" and "finite_number \<beta>"
  shows "(\<exists>vs. calculate_unemployment years u_natural \<beta> = Inr (Float64 vs) \<and>
            length vs = length years \<and>
            (\<forall>i<length years.
               vs ! i = round_f64 (num u_natural + num \<beta> * cos (real (years ! i) / 3)) \<and>
               (\<bar>num u_natural + num \<beta> * cos (real (years ! i) / 3)\<bar> < float64_bound \<longrightarrow>
                vs ! i = Finite (num u_natural + num \<beta> * cos (real (years ! i) / 3))))) \<and>
         (\<exists>ws. calculate_inflation years u_natural \<beta> = Inr (Float64 ws) \<and>
            length ws = length years \<and>
            (\<forall>i<length years.
               ws ! i = round_f64 (num u_natural + num \<beta> * sin (real (years ! i) / 2)) \<and>
               (\<bar>num u_natural + num \<beta> * sin (real (years ! i) / 2)\<bar> < float64_bound \<longrightarrow>
                ws ! i = Finite (num u_natural + num \<beta> * sin (real (years ! i) / 2)))))"
  using assms
  by (simp add: calculate_unemployment_number calculate_inflation_number round_f64_Finite)

theorem C5_unemployment_scenario:
  "\<exists>vs. calculate_unemployment (np_arange 0 11) (PyInt 4) (PyFloat (- 1 / 2)) = Inr (Float64 vs) \<and>
        length vs = 11 \<and> vs ! 0 = Finite (7 / 2) \<and> vs ! 3 = Finite (4 - 1 / 2 * cos 1) \<and>
        vs ! 6 = Finite (4 - 1 / 2 * cos 2)"
proof -
  have "finite_number (PyInt 4)" and "finite_number (PyFloat (- 1 / 2))"
    by (simp_all add: float64_bound_def)
  then obtain vs where
    vs: "calculate_unemployment (np_arange 0 11) (PyInt 4) (PyFloat (- 1 / 2)) = Inr (Float64 vs)"
      "length vs = length (np_arange 0 11)"
    and at: "\<forall>i<length (np_arange 0 11).
      (\<bar>num (PyInt 4) + num (PyFloat (- 1 / 2)) * cos (real (np_arange 0 11 ! i) / 3)\<bar>
         < float64_bound \<longrightarrow>
       vs ! i = Finite (num (PyInt 4) + num (PyFloat (- 1 / 2))
         * cos (real (np_arange 0 11 ! i) / 3)))"
    using C5_unemployment_formula [of "PyInt 4" "PyFloat (- 1 / 2)" "np_arange 0 11"] by blast
  have range: "\<bar>4 + (- 1 / 2) * cos x\<bar> < float64_bound" for x :: real
    by (rule cyclical_in_range) (simp_all add: float64_bound_def)
  have "vs ! 0 = Finite (7 / 2)"
    using at by (simp add: np_arange_def float64_bound_def)
  moreover have "vs ! 3 = Finite (4 - 1 / 2 * cos 1)"
    using at range [of 1] by (simp add: np_arange_def)
  moreover have "vs ! 6 = Finite (4 - 1 / 2 * cos 2)"
    using at range [of 2] by (simp add: np_arange_def)
  ultimately show ?thesis
    using vs by (simp add: np_arange_def)
qed

text \<open>
  C6. Every series of a figure has as many values as the time domain has points, and all
  three series are plotted over one and the same domain, \<^verbatim>\<open>years + 2010\<close> for
  \<^verbatim>\<open>years = np.arange(0, 11)\<close>.
\<close>

theorem C6_series_share_domain:
  assumes "update_graph gdp_A gdp_g inf_target inf_alpha unemp_natural unemp_beta = Inr fig"
  shows "length (series fig) = 3 \<and> length (domains fig) = 3 \<and>
         (\<forall>i<3. domains fig ! i = np_add_int (np_arange 0 11) 2010 \<and>
                size_of (series fig ! i) = size_of (domains fig ! i) \<and>
                size_of (series fig ! i) = length (np_arange 0 11))"
proof -
  from assms obtain gdp inflation unemployment where
    "calculate_gdp (np_arange 0 11) gdp_A gdp_g = Inr gdp"
    "calculate_inflation (np_arange 0 11) inf_target inf_alpha = Inr inflation"
    "calculate_unemployment (np_arange 0 11) unemp_natural unemp_beta = Inr unemployment"
    and s: "series fig = [gdp, inflation, unemployment]"
    and d: "domains fig = replicate 3 (np_add_int (np_arange 0 11) 2010)"
    by (rule update_graph_Inr)
  then have n: "size_of gdp = length (np_arange 0 11)"
    "size_of inflation = length (np_arange 0 11)"
    "size_of unemployment = length (np_arange 0 11)"
    by (simp_all add: calculate_gdp_size calculate_inflation_size calculate_unemployment_size)
  have "size_of (series fig ! i) = length (np_arange 0 11)" if "i < 3" for i
  proof -
    from that have "i = 0 \<or> i = 1 \<or> i = 2" by arith
    then show ?thesis using n by (auto simp: s)
  qed
  then show ?thesis
    by (simp add: s d np_add_int_size)
qed

theorem C6_series_share_domain_witness:
  "\<exists>fig. callback initial_params = Inr fig \<and> length (series fig) = 3 \<and>
         (\<forall>i<3. size_of (series fig ! i) = 11 \<and> size_of (domains fig ! i) = 11)"
proof -
  obtain fig where fig: "callback initial_params = Inr fig"
    using callback_initial_params by blast
  then have "update_graph (gdp_A_value initial_params) (gdp_g_value initial_params)
      (inf_target_value initial_params) (inf_alpha_value initial_params)
      (unemp_natural_value initial_params) (unemp_beta_value initial_params) = Inr fig"
    by (simp add: callback_def)
  from C6_series_share_domain [OF this] fig show ?thesis
    by (auto simp: np_arange_def)
qed

text \<open>
  C7. Each formula function is total over all finite parameter values and returns a
  sentinel for a point whose result is not finite. The code has no sentinel and no check:
  a formula function returns the numpy expression as it is. With base \<open>1e308\<close> and rate 9
  the growth series is \<open>1e308\<close> at index 0 and \<^verbatim>\<open>inf\<close> from index 1 on; and the finite
  integer \<open>2 ^ 63\<close> for a base makes the function raise \<^verbatim>\<open>OverflowError\<close> where the
  claim has it return.
\<close>

theorem C7_sentinel_counterexample:
  "calculate_gdp (np_arange 0 11) (PyFloat (10 ^ 308)) (PyInt 9) =
     Inr (Float64 [Finite (10 ^ 308), PosInf, PosInf, PosInf, PosInf, PosInf, PosInf, PosInf,
       PosInf, PosInf, PosInf]) \<and>
   calculate_gdp (np_arange 0 11) (PyInt (2 ^ 63)) (PyInt 1) = Inl OverflowError"
  by (simp add: calculate_gdp_def np_arange_def upt_rec to_int64_def f64_of_int64_def
      round_f64_def float64_bound_def)

text \<open>
  C7, as the code has it. Each formula function returns a series of the domain's length
  for every pair of parameter values that are finite floats or integers \<open>n\<close> with
  \<open>-2 ^ 63 \<le> n < 2 ^ 63 - 1\<close>. It has no sentinel: with float parameters every point of the
  series is the float64 result of the formula's own operations, finite or not, so that a
  result beyond the range is an infinity in the series and an invalid operation a
  \<^verbatim>\<open>nan\<close>; and the figure holds the series as the formulas return them.
\<close>

theorem C7_formulas_total_without_sentinel:
  assumes "int64_number gdp_A" and "int64_number gdp_g"
      and "int64_number inf_target" and "int64_number inf_alpha"
      and "int64_number unemp_natural" and "int64_number unemp_beta"
  shows "(\<exists>gdp. calculate_gdp years gdp_A gdp_g = Inr gdp \<and> size_of gdp = length years) \<and>
         (\<exists>inflation. calculate_inflation years inf_target inf_alpha = Inr inflation \<and>
            size_of inflation = length years) \<and>
         (\<exists>unemployment. calculate_unemployment years unemp_natural unemp_beta
            = Inr unemployment \<and> size_of unemployment = length years) \<and>
         (\<forall>a g. calculate_gdp years (PyFloat64 a) (PyFloat64 g) =
            Inr (Float64 (map (\<lambda>t. f64_mul a (f64_pow (f64_add (Finite 1) g) t)) years))) \<and>
         (\<forall>a b. calculate_inflation years (PyFloat64 a) (PyFloat64 b) =
            Inr (Float64 (map (\<lambda>t. f64_add a (f64_mul b (Finite (sin (real t / 2))))) years))) \<and>
         (\<forall>a b. calculate_unemployment years (PyFloat64 a) (PyFloat64 b) =
            Inr (Float64 (map (\<lambda>t. f64_add a (f64_mul b (Finite (cos (real t / 3))))) years))) \<and>
         (\<forall>fig. update_graph gdp_A gdp_g inf_target inf_alpha unemp_natural unemp_beta = Inr fig
            \<longrightarrow> calculate_gdp (np_arange 0 11) gdp_A gdp_g = Inr (series fig ! 0) \<and>
                calculate_inflation (np_arange 0 11) inf_target inf_alpha
                  = Inr (series fig ! 1) \<and>
                calculate_unemployment (np_arange 0 11) unemp_natural unemp_beta
                  = Inr (series fig ! 2))"
proof (intro conjI allI impI)
  show "\<exists>gdp. calculate_gdp years gdp_A gdp_g = Inr gdp \<and> size_of gdp = length years"
  proof -
    have "\<exists>gdp. calculate_gdp years gdp_A gdp_g = Inr gdp"
    proof (cases gdp_g rule: int64_number.cases)
      case (1 n)
      with assms(2) have n: "- (2 ^ 63) \<le> 1 + n" "1 + n < 2 ^ 63"
        by simp_all
      show ?thesis
      proof (cases gdp_A rule: int64_number.cases)
        case (1 m)
        with assms(1) have "- (2 ^ 63) \<le> m" "m < 2 ^ 63"
          by simp_all
        with n \<open>gdp_g = PyInt n\<close> 1 show ?thesis
          by (simp add: calculate_gdp_def to_int64_def)
      next
        case (2 v)
        with n \<open>gdp_g = PyInt n\<close> show ?thesis
          by (simp add: calculate_gdp_def to_int64_def)
      qed (use assms(1) in simp_all)
    next
      case (2 v)
      with int64_number_finite [OF assms(1)] show ?thesis
        by (simp add: calculate_gdp_float_rate)
    qed (use assms(2) in simp_all)
    then show ?thesis
      by (auto dest: calculate_gdp_size)
  qed
  show "\<exists>inflation. calculate_inflation years inf_target inf_alpha = Inr inflation \<and>
      size_of inflation = length years"
    using int64_number_finite [OF assms(3)] int64_number_finite [OF assms(4)]
    by (simp add: calculate_inflation_number)
  show "\<exists>unemployment. calculate_unemployment years unemp_natural unemp_beta
      = Inr unemployment \<and> size_of unemployment = length years"
    using int64_number_finite [OF assms(5)] int64_number_finite [OF assms(6)]
    by (simp add: calculate_unemployment_number)
  show "calculate_gdp years (PyFloat64 a) (PyFloat64 g) =
      Inr (Float64 (map (\<lambda>t. f64_mul a (f64_pow (f64_add (Finite 1) g) t)) years))" for a g
    by (simp add: calculate_gdp_def f64_of_int_def float64_bound_def comp_def)
  show "calculate_inflation years (PyFloat64 a) (PyFloat64 b) =
      Inr (Float64 (map (\<lambda>t. f64_add a (f64_mul b (Finite (sin (real t / 2))))) years))" for a b
    by (simp add: calculate_inflation_def np_divide_def comp_def)
  show "calculate_unemployment years (PyFloat64 a) (PyFloat64 b) =
      Inr (Float64 (map (\<lambda>t. f64_add a (f64_mul b (Finite (cos (real t / 3))))) years))" for a b
    by (simp add: calculate_unemployment_def np_divide_def comp_def)
next
  fix fig
  assume fig: "update_graph gdp_A gdp_g inf_target inf_alpha unemp_natural unemp_beta = Inr fig"
  from fig show "calculate_gdp (np_arange 0 11) gdp_A gdp_g = Inr (series fig ! 0)"
    by (rule update_graph_Inr) simp
  from fig show "calculate_inflation (np_arange 0 11) inf_target inf_alpha = Inr (series fig ! 1)"
    by (rule update_graph_Inr) simp
  from fig show "calculate_unemployment (np_arange 0 11) unemp_natural unemp_beta
      = Inr (series fig ! 2)"
    by (rule update_graph_Inr) simp
qed

theorem C7_formulas_total_without_sentinel_witness:
  "(\<exists>gdp. calculate_gdp (np_arange 0 11) (PyInt 10) (PyInt 100) = Inr gdp \<and> size_of gdp = 11) \<and>
   calculate_gdp (np_arange 0 3) (PyFloat 0) (PyFloat (10 ^ 308)) =
     Inr (Float64 [Finite 0, Finite 0, NaN]) \<and>
   calculate_unemployment (np_arange 0 1) (PyFloat (17 * 10 ^ 307)) (PyFloat (17 * 10 ^ 307)) =
     Inr (Float64 [PosInf])"
proof -
  have n: "int64_number (PyInt 10)" "int64_number (PyInt 100)" "int64_number (PyInt 2)"
    by (simp_all add: float64_bound_def)
  note total = C7_formulas_total_without_sentinel [OF n(1) n(2) n(3) n(3) n(3) n(3)]
  have "\<exists>gdp. calculate_gdp (np_arange 0 11) (PyInt 10) (PyInt 100) = Inr gdp \<and> size_of gdp = 11"
    using total [of "np_arange 0 11"] by (simp add: np_arange_def)
  moreover have "calculate_gdp (np_arange 0 3) (PyFloat 0) (PyFloat (10 ^ 308)) =
      Inr (Float64 [Finite 0, Finite 0, NaN])"
  proof -
    have "calculate_gdp (np_arange 0 3) (PyFloat 0) (PyFloat (10 ^ 308)) =
        Inr (Float64 (map (\<lambda>t. f64_mul (Finite 0) (f64_pow (f64_add (Finite 1) (Finite (10 ^ 308))) t))
          (np_arange 0 3)))"
      using total [of "np_arange 0 3"] by blast
    then show ?thesis
      by (simp add: np_arange_def upt_rec round_f64_def float64_bound_def)
  qed
  moreover have "calculate_unemployment (np_arange 0 1) (PyFloat (17 * 10 ^ 307))
      (PyFloat (17 * 10 ^ 307)) = Inr (Float64 [PosInf])"
  proof -
    have "calculate_unemployment (np_arange 0 1) (PyFloat (17 * 10 ^ 307))
        (PyFloat (17 * 10 ^ 307)) =
        Inr (Float64 (map (\<lambda>t. f64_add (Finite (17 * 10 ^ 307))
          (f64_mul (Finite (17 * 10 ^ 307)) (Finite (cos (real t / 3))))) (np_arange 0 1)))"
      using total [of "np_arange 0 1"] by blast
    then show ?thesis
      by (simp add: np_arange_def round_f64_def float64_bound_def)
  qed
  ultimately show ?thesis by blast
qed

text \<open>
  C10. Each series depends on its own two parameters only: two calls that both return a
  figure and agree on \<^verbatim>\<open>gdp_A\<close> and \<^verbatim>\<open>gdp_g\<close> have the same GDP series, whatever the
  other four arguments are; likewise the inflation series for \<^verbatim>\<open>inf_target\<close> and
  \<^verbatim>\<open>inf_alpha\<close>, and the unemployment series for \<^verbatim>\<open>unemp_natural\<close> and
  \<^verbatim>\<open>unemp_beta\<close>. Each series of the figure is what its formula returns for its two
  parameters on the years 0 to 10.
\<close>

theorem C10_series_depend_on_own_parameters:
  assumes "update_graph gdp_A gdp_g inf_target inf_alpha unemp_natural unemp_beta = Inr fig"
      and "update_graph gdp_A' gdp_g' inf_target' inf_alpha' unemp_natural' unemp_beta'
             = Inr fig'"
  shows "(gdp_A = gdp_A' \<and> gdp_g = gdp_g' \<longrightarrow> series fig ! 0 = series fig' ! 0) \<and>
         (inf_target = inf_target' \<and> inf_alpha = inf_alpha' \<longrightarrow>
            series fig ! 1 = series fig' ! 1) \<and>
         (unemp_natural = unemp_natural' \<and> unemp_beta = unemp_beta' \<longrightarrow>
            series fig ! 2 = series fig' ! 2) \<and>
         calculate_gdp (np_arange 0 11) gdp_A gdp_g = Inr (series fig ! 0) \<and>
         calculate_inflation (np_arange 0 11) inf_target inf_alpha = Inr (series fig ! 1) \<and>
         calculate_unemployment (np_arange 0 11) unemp_natural unemp_beta
           = Inr (series fig ! 2)"
proof -
  from assms(1) obtain gdp inflation unemployment where
    a: "calculate_gdp (np_arange 0 11) gdp_A gdp_g = Inr gdp"
    "calculate_inflation (np_arange 0 11) inf_target inf_alpha = Inr inflation"
    "calculate_unemployment (np_arange 0 11) unemp_natural unemp_beta = Inr unemployment"
    "series fig = [gdp, inflation, unemployment]"
    by (rule update_graph_Inr)
  from assms(2) obtain gdp' inflation' unemployment' where
    b: "calculate_gdp (np_arange 0 11) gdp_A' gdp_g' = Inr gdp'"
    "calculate_inflation (np_arange 0 11) inf_target' inf_alpha' = Inr inflation'"
    "calculate_unemployment (np_arange 0 11) unemp_natural' unemp_beta' = Inr unemployment'"
    "series fig' = [gdp', inflation', unemployment']"
    by (rule update_graph_Inr)
  from a b show ?thesis by auto
qed

theorem C10_series_depend_on_own_parameters_witness:
  "\<exists>fig fig'.
     update_graph (PyInt 10) (PyFloat (3 / 100)) (PyInt 2) (PyFloat (1 / 2)) (PyInt 4)
       (PyFloat (- 1 / 2)) = Inr fig \<and>
     update_graph (PyInt 10) (PyFloat (3 / 100)) (PyFloat (5 / 2)) (PyInt 1) (PyInt 6)
       (PyInt 0) = Inr fig' \<and>
     series fig ! 0 = series fig' ! 0"
proof -
  have n: "finite_number (PyInt 10)" "finite_number (PyInt 2)" "finite_number (PyFloat (1 / 2))"
    "finite_number (PyInt 4)" "finite_number (PyFloat (- 1 / 2))"
    "finite_number (PyFloat (5 / 2))" "finite_number (PyInt 1)" "finite_number (PyInt 6)"
    "finite_number (PyInt 0)"
    by (simp_all add: float64_bound_def)
  obtain fig where fig: "update_graph (PyInt 10) (PyFloat (3 / 100)) (PyInt 2)
      (PyFloat (1 / 2)) (PyInt 4) (PyFloat (- 1 / 2)) = Inr fig"
    using update_graph_numbers [OF n(1) n(2) n(3) n(4) n(5), of "Finite (3 / 100)"]
    by auto
  obtain fig' where fig': "update_graph (PyInt 10) (PyFloat (3 / 100)) (PyFloat (5 / 2))
      (PyInt 1) (PyInt 6) (PyInt 0) = Inr fig'"
    using update_graph_numbers [OF n(1) n(6) n(7) n(8) n(9), of "Finite (3 / 100)"]
    by auto
  from C10_series_depend_on_own_parameters [OF fig fig'] have "series fig ! 0 = series fig' ! 0"
    by blast
  with fig fig' show ?thesis by blast
qed

end
